theory Spec2Isabelle
  imports Complex_Main "HOL-Library.Monad_Syntax"
begin

section \<open>Rotations.hpp of LSE: rotation conversions, NQuat and LieG\<close>

text \<open>
  The header computes on C++ \<open>double\<close>. Except for \<open>rangePi_exact\<close>, this development reads
  every \<open>double\<close> as a real number: \<open>+\<close>, \<open>-\<close>, \<open>*\<close>, \<open>/\<close>, \<open>sqrt\<close>, \<open>sin\<close>, \<open>cos\<close>,
  \<open>tan\<close>, \<open>floor\<close> are the exact operations, \<open>M_PI\<close> is \<open>pi\<close> and the literal \<open>1e-10\<close> is
  \<open>1 / 10 ^ 10\<close>; \<open>pow(q, 2)\<close> is \<open>q ^ 2\<close> and \<open>asin\<close> is \<open>arcsin\<close>, which is
  used on arguments in \<open>[-1, 1]\<close> only. Rounding, NaN, infinities and signed zeros are
  outside this reading; a statement "up to tolerance" is established there as a statement
  about the exact values. \<open>rangePi_exact\<close> is meant for rotation vectors of any length, where
  rounding decides the result; it is modelled with the rounding of IEEE 754 binary64.
\<close>

subsection \<open>Fixed-size vectors and matrices\<close>

text \<open>
  \<open>Eigen::Vector3d\<close> is a triple, \<open>Quat = Eigen::Vector4d\<close> a quadruple with the vector
  part in components 0..2 and the scalar part in component 3, matrices are tuples of rows.
\<close>

type_synonym vec3 = "real \<times> real \<times> real"
type_synonym Quat = "real \<times> real \<times> real \<times> real"
type_synonym mat3 = "vec3 \<times> vec3 \<times> vec3"
type_synonym mat4 = "Quat \<times> Quat \<times> Quat \<times> Quat"

text \<open>\<open>v.norm()\<close> of Eigen: the square root of the sum of the squared coefficients.\<close>

fun vnorm :: "vec3 \<Rightarrow> real" where
  "vnorm (x, y, z) = sqrt (x * x + y * y + z * z)"

fun qnorm :: "Quat \<Rightarrow> real" where
  "qnorm (x, y, z, w) = sqrt (x * x + y * y + z * z + w * w)"

text \<open>Coefficient-wise \<open>v * k\<close>, \<open>v / k\<close>, \<open>k * v\<close>, \<open>u + v\<close>, \<open>u - v\<close> on 3-vectors.\<close>

fun vscale :: "vec3 \<Rightarrow> real \<Rightarrow> vec3" where
  "vscale (x, y, z) k = (x * k, y * k, z * k)"

fun vdiv :: "vec3 \<Rightarrow> real \<Rightarrow> vec3" where
  "vdiv (x, y, z) k = (x / k, y / k, z / k)"

fun smul :: "real \<Rightarrow> vec3 \<Rightarrow> vec3" where
  "smul k (x, y, z) = (k * x, k * y, k * z)"

fun vadd :: "vec3 \<Rightarrow> vec3 \<Rightarrow> vec3" where
  "vadd (a, b, c) (x, y, z) = (a + x, b + y, c + z)"

fun vsub :: "vec3 \<Rightarrow> vec3 \<Rightarrow> vec3" where
  "vsub (a, b, c) (x, y, z) = (a - x, b - y, c - z)"

text \<open>\<open>q.block(0,0,3,1)\<close>: the vector part of a quaternion.\<close>

fun vecpart :: "Quat \<Rightarrow> vec3" where
  "vecpart (q0, q1, q2, q3) = (q0, q1, q2)"

fun scalarpart :: "Quat \<Rightarrow> real" where
  "scalarpart (q0, q1, q2, q3) = q3"


definition mat3_Zero :: mat3 where
  "mat3_Zero = ((0, 0, 0), (0, 0, 0), (0, 0, 0))"

definition mat3_Identity :: mat3 where
  "mat3_Identity = ((1, 0, 0), (0, 1, 0), (0, 0, 1))"

fun mat3_mult :: "mat3 \<Rightarrow> mat3 \<Rightarrow> mat3" where
  "mat3_mult ((a00, a01, a02), (a10, a11, a12), (a20, a21, a22))
             ((b00, b01, b02), (b10, b11, b12), (b20, b21, b22)) =
     ((a00 * b00 + a01 * b10 + a02 * b20, a00 * b01 + a01 * b11 + a02 * b21,
       a00 * b02 + a01 * b12 + a02 * b22),
      (a10 * b00 + a11 * b10 + a12 * b20, a10 * b01 + a11 * b11 + a12 * b21,
       a10 * b02 + a11 * b12 + a12 * b22),
      (a20 * b00 + a21 * b10 + a22 * b20, a20 * b01 + a21 * b11 + a22 * b21,
       a20 * b02 + a21 * b12 + a22 * b22))"

definition mat4_Identity :: mat4 where
  "mat4_Identity = ((1, 0, 0, 0), (0, 1, 0, 0), (0, 0, 1, 0), (0, 0, 0, 1))"

fun qscale :: "Quat \<Rightarrow> real \<Rightarrow> Quat" where
  "qscale (a, b, c, d) k = (a * k, b * k, c * k, d * k)"

fun mat4_scale :: "mat4 \<Rightarrow> real \<Rightarrow> mat4" where
  "mat4_scale (r0, r1, r2, r3) k = (qscale r0 k, qscale r1 k, qscale r2 k, qscale r3 k)"

text \<open>\<open>M.block(0,0,3,3) += S\<close> and \<open>M.block(0,0,3,3) -= S\<close>.\<close>

fun block33_add :: "mat4 \<Rightarrow> mat3 \<Rightarrow> mat4" where
  "block33_add ((a00, a01, a02, a03), (a10, a11, a12, a13), (a20, a21, a22, a23), r3)
               ((s00, s01, s02), (s10, s11, s12), (s20, s21, s22)) =
     ((a00 + s00, a01 + s01, a02 + s02, a03),
      (a10 + s10, a11 + s11, a12 + s12, a13),
      (a20 + s20, a21 + s21, a22 + s22, a23), r3)"

fun block33_sub :: "mat4 \<Rightarrow> mat3 \<Rightarrow> mat4" where
  "block33_sub ((a00, a01, a02, a03), (a10, a11, a12, a13), (a20, a21, a22, a23), r3)
               ((s00, s01, s02), (s10, s11, s12), (s20, s21, s22)) =
     ((a00 - s00, a01 - s01, a02 - s02, a03),
      (a10 - s10, a11 - s11, a12 - s12, a13),
      (a20 - s20, a21 - s21, a22 - s22, a23), r3)"

text \<open>\<open>M.block(3,0,1,4) = r\<close> (the last row) and \<open>M.block(0,3,4,1) = c\<close> (the last column).\<close>

fun set_row3 :: "mat4 \<Rightarrow> Quat \<Rightarrow> mat4" where
  "set_row3 (r0, r1, r2, r3) r = (r0, r1, r2, r)"

fun set_col3 :: "mat4 \<Rightarrow> Quat \<Rightarrow> mat4" where
  "set_col3 ((a00, a01, a02, a03), (a10, a11, a12, a13), (a20, a21, a22, a23),
             (a30, a31, a32, a33)) (c0, c1, c2, c3) =
     ((a00, a01, a02, c0), (a10, a11, a12, c1), (a20, a21, a22, c2), (a30, a31, a32, c3))"

text \<open>The matrix-vector product \<open>M * q\<close> of a 4x4 matrix and a 4-vector.\<close>

fun mat4_apply :: "mat4 \<Rightarrow> Quat \<Rightarrow> Quat" where
  "mat4_apply ((a00, a01, a02, a03), (a10, a11, a12, a13), (a20, a21, a22, a23),
               (a30, a31, a32, a33)) (x0, x1, x2, x3) =
     (a00 * x0 + a01 * x1 + a02 * x2 + a03 * x3,
      a10 * x0 + a11 * x1 + a12 * x2 + a13 * x3,
      a20 * x0 + a21 * x1 + a22 * x2 + a23 * x3,
      a30 * x0 + a31 * x1 + a32 * x2 + a33 * x3)"

subsection \<open>The C library's atan2\<close>

text \<open>
  \<open>atan2 y x\<close> of \<open>math.h\<close>: the angle in \<open>(-pi, pi]\<close> of the point \<open>(x, y)\<close>, and 0 at
  the origin.
\<close>

definition atan2 :: "real \<Rightarrow> real \<Rightarrow> real" where
  "atan2 y x =
     (if 0 < x then arctan (y / x)
      else if x < 0 then (if 0 \<le> y then arctan (y / x) + pi else arctan (y / x) - pi)
      else if 0 < y then pi / 2
      else if y < 0 then - (pi / 2)
      else 0)"

subsection \<open>IEEE 754 binary64 arithmetic\<close>

text \<open>
  A finite \<open>double\<close> is the real number it denotes. \<open>fl x\<close> rounds the real \<open>x\<close> to the
  nearest number with a 53-bit significand, ties to the even significand, with the unit
  in the last place kept at \<open>2^-1074\<close> below \<open>2^-1022\<close> (subnormal numbers). \<open>dbl x\<close> is
  the result of an operation whose exact value is \<open>x\<close>: the rounded value, or \<open>None\<close>
  when it reaches \<open>2^1024\<close>, where the machine computes with infinities and NaN. Each
  operation of the source rounds once (no fused multiply-add).
\<close>

definition expo :: "real \<Rightarrow> int" where
  "expo x = \<lfloor>log 2 \<bar>x\<bar>\<rfloor>"

definition rne :: "real \<Rightarrow> int" where
  "rne t =
     (let f = \<lfloor>t\<rfloor>; r = t - of_int f
      in if r < 1 / 2 then f else if 1 / 2 < r then f + 1 else if even f then f else f + 1)"

definition fl :: "real \<Rightarrow> real" where
  "fl x =
     (if x = 0 then 0
      else (let u = 2 powr of_int (max (expo x) (- 1022) - 52)
            in of_int (rne (x / u)) * u))"

definition dbl :: "real \<Rightarrow> real option" where
  "dbl x = (let y = fl x in if \<bar>y\<bar> < 2 ^ 1024 then Some y else None)"

definition dadd :: "real \<Rightarrow> real \<Rightarrow> real option" where
  "dadd a b = dbl (a + b)"

definition dmul :: "real \<Rightarrow> real \<Rightarrow> real option" where
  "dmul a b = dbl (a * b)"

definition ddiv :: "real \<Rightarrow> real \<Rightarrow> real option" where
  "ddiv a b = (if b = 0 then None else dbl (a / b))"

definition dsqrt :: "real \<Rightarrow> real option" where
  "dsqrt a = (if a < 0 then None else dbl (sqrt a))"

text \<open>The macro \<open>M_PI\<close> of \<open>math.h\<close>: the \<open>double\<close> nearest to \<open>pi\<close>.\<close>

definition M_PI :: real where
  "M_PI = 884279719003555 / 2 ^ 48"

text \<open>
  \<open>v.norm()\<close>, \<open>v * k\<close> and \<open>v / k\<close> of Eigen on 3-vectors, every operation rounded:
  the norm is the square root of \<open>(x*x + y*y) + z*z\<close>, and \<open>v / k\<close> divides each
  coefficient by \<open>k\<close>, as current Eigen does.
\<close>

fun vnormD :: "vec3 \<Rightarrow> real option" where
  "vnormD (x, y, z) =
     do { xx \<leftarrow> dmul x x; yy \<leftarrow> dmul y y; s \<leftarrow> dadd xx yy;
          zz \<leftarrow> dmul z z; t \<leftarrow> dadd s zz; dsqrt t }"

fun vscaleD :: "vec3 \<Rightarrow> real \<Rightarrow> vec3 option" where
  "vscaleD (x, y, z) k = do { a \<leftarrow> dmul x k; b \<leftarrow> dmul y k; c \<leftarrow> dmul z k; Some (a, b, c) }"

fun vdivD :: "vec3 \<Rightarrow> real \<Rightarrow> vec3 option" where
  "vdivD (x, y, z) k = do { a \<leftarrow> ddiv x k; b \<leftarrow> ddiv y k; c \<leftarrow> ddiv z k; Some (a, b, c) }"

subsection \<open>Rotation conversions\<close>

fun vecToSqew :: "vec3 \<Rightarrow> mat3" where
  "vecToSqew (v0, v1, v2) = ((0, - v2, v1), (v2, 0, - v0), (- v1, v0, 0))"

text \<open>
  \<open>rangePi\<close> on doubles: \<open>a = v.norm()\<close>, then
  \<open>a2 = -2.0*M_PI*floor((a+M_PI)/(2*M_PI))+a\<close> evaluated from left to right, then
  \<open>v/a*a2\<close>. \<open>floor\<close> of a double is exact.
\<close>

definition rangePi :: "vec3 \<Rightarrow> vec3 option" where
  "rangePi v =
     do { a \<leftarrow> vnormD v;
          if a \<le> M_PI then Some v
          else do {
            t \<leftarrow> dadd a M_PI;
            w \<leftarrow> dmul 2 M_PI;
            q \<leftarrow> ddiv t w;
            n \<leftarrow> dmul (- 2) M_PI;
            m \<leftarrow> dmul n (of_int \<lfloor>q\<rfloor>);
            a2 \<leftarrow> dadd m a;
            u \<leftarrow> vdivD v a;
            vscaleD u a2 } }"

text \<open>
  The same expression without rounding and with \<open>pi\<close> for \<open>M_PI\<close>. It is not the code;
  it serves to compare the code with what its formula gives in exact arithmetic.
\<close>

definition rangePi_exact :: "vec3 \<Rightarrow> vec3" where
  "rangePi_exact v =
     (let a = vnorm v
      in if a \<le> pi then v
         else (let a2 = - 2 * pi * of_int \<lfloor>(a + pi) / (2 * pi)\<rfloor> + a
               in vscale (vdiv v a) a2))"

definition quatToRotVec :: "Quat \<Rightarrow> vec3" where
  "quatToRotVec q =
     (let c = scalarpart q; v = vecpart q; s = vnorm v
      in if s \<ge> 1 / 10 ^ 10 then (let a = 2 * atan2 s c in vdiv (vscale v a) s)
         else vscale v 2)"


fun quatInverse :: "Quat \<Rightarrow> Quat" where
  "quatInverse (q0, q1, q2, q3) = (- q0, - q1, - q2, q3)"

definition quatIdentity :: Quat where
  "quatIdentity = (0, 0, 0, 1)"

fun quatL :: "Quat \<Rightarrow> mat4" where
  "quatL (q0, q1, q2, q3) =
     (let M = mat4_Identity;
          M = mat4_scale M q3;
          M = block33_add M (vecToSqew (q0, q1, q2));
          M = set_row3 M (- q0, - q1, - q2, - q3);
          M = set_col3 M (q0, q1, q2, q3)
      in M)"

fun quatR :: "Quat \<Rightarrow> mat4" where
  "quatR (q0, q1, q2, q3) =
     (let M = mat4_Identity;
          M = mat4_scale M q3;
          M = block33_sub M (vecToSqew (q0, q1, q2));
          M = set_row3 M (- q0, - q1, - q2, - q3);
          M = set_col3 M (q0, q1, q2, q3)
      in M)"

text \<open>
  The Hamilton product of two quaternions with vector parts \<open>u\<close>, \<open>v\<close> and scalar parts
  \<open>a\<close>, \<open>b\<close>, stated on its own and not taken from the source: the vector part is
  \<open>a v + b u + u \<times> v\<close>, the scalar part \<open>a b - u \<cdot> v\<close>.
\<close>

fun dot3 :: "vec3 \<Rightarrow> vec3 \<Rightarrow> real" where
  "dot3 (a, b, c) (x, y, z) = a * x + b * y + c * z"

fun cross3 :: "vec3 \<Rightarrow> vec3 \<Rightarrow> vec3" where
  "cross3 (a, b, c) (x, y, z) = (b * z - c * y, c * x - a * z, a * y - b * x)"

definition hamilton_product :: "Quat \<Rightarrow> Quat \<Rightarrow> Quat" where
  "hamilton_product p q =
     (let u = vecpart p; a = scalarpart p; v = vecpart q; b = scalarpart q
      in case vadd (vadd (smul a v) (smul b u)) (cross3 u v) of
           (r0, r1, r2) \<Rightarrow> (r0, r1, r2, a * b - dot3 u v))"

fun quatToYpr :: "Quat \<Rightarrow> vec3" where
  "quatToYpr (q0, q1, q2, q3) =
     (atan2 (2 * (- q3 * q0 + q1 * q2)) (1 - 2 * (q0 ^ 2 + q1 ^ 2)),
      arcsin (2 * (- q3 * q1 - q0 * q2)),
      atan2 (2 * (- q3 * q2 + q0 * q1)) (1 - 2 * (q1 ^ 2 + q2 ^ 2)))"

fun yprToQuat :: "vec3 \<Rightarrow> Quat" where
  "yprToQuat (v0, v1, v2) =
     (let c_phi = cos (v0 / 2); s_phi = sin (v0 / 2);
          c_theta = cos (v1 / 2); s_theta = sin (v1 / 2);
          c_psi = cos (v2 / 2); s_psi = sin (v2 / 2)
      in (c_phi * s_theta * s_psi - c_theta * c_psi * s_phi,
          - c_phi * s_theta * c_psi - c_theta * s_psi * s_phi,
          - c_phi * c_theta * s_psi + s_theta * c_psi * s_phi,
          c_phi * c_theta * c_psi + s_theta * s_psi * s_phi))"

fun quatToRpy :: "Quat \<Rightarrow> vec3" where
  "quatToRpy (q0, q1, q2, q3) =
     (atan2 (2 * (- q2 * q1 - q3 * q0)) (q2 ^ 2 + q3 ^ 2 - q0 ^ 2 - q1 ^ 2),
      arcsin (2 * (q0 * q2 - q3 * q1)),
      atan2 (- 2 * q0 * q1 - 2 * q3 * q2) (q0 ^ 2 + q3 ^ 2 - q2 ^ 2 - q1 ^ 2))"

fun rpyToQuat :: "vec3 \<Rightarrow> Quat" where
  "rpyToQuat (v0, v1, v2) =
     (let c_phi = cos (v0 / 2); s_phi = sin (v0 / 2);
          c_theta = cos (v1 / 2); s_theta = sin (v1 / 2);
          c_psi = cos (v2 / 2); s_psi = sin (v2 / 2)
      in (- c_phi * c_theta * s_psi - s_theta * c_psi * s_phi,
          - c_phi * s_theta * c_psi + c_theta * s_psi * s_phi,
          - c_phi * s_theta * s_psi - c_theta * c_psi * s_phi,
          c_phi * c_theta * c_psi - s_theta * s_psi * s_phi))"

fun rpyToEar :: "vec3 \<Rightarrow> mat3" where
  "rpyToEar (r, p, y) =
     (let cp = cos p; sp = sin p; cy = cos y; sy = sin y
      in ((cp * cy, sy, 0), (- cp * sy, cy, 0), (sp, 0, 1)))"

fun rpyToEarInv :: "vec3 \<Rightarrow> mat3" where
  "rpyToEarInv (r, p, y) =
     (let M = mat3_Zero; cp = cos p
      in if cp > 1 / 10 ^ 10
         then (let cpi = 1 / cp; tp = tan p; cy = cos y; sy = sin y
               in ((cpi * cy, - cpi * sy, 0), (sy, cy, 0), (- cy * tp, sy * tp, 1)))
         else M)"

subsection \<open>NQuat\<close>

text \<open>
  The class holds \<open>double q_[4]\<close>; its values are quadruples again. In the source \<open>NQuat\<close>
  and \<open>Quat\<close> are different types with no conversion between them; the synonym
  identifies their values only. \<open>NQuat_mult a b\<close> is \<open>a * b\<close>: \<open>a\<close> is the receiver
  (\<open>q_\<close>), \<open>b\<close> the argument (\<open>q\<close>).
\<close>

type_synonym NQuat = Quat

fun NQuat_normalize :: "NQuat \<Rightarrow> NQuat" where
  "NQuat_normalize (q0, q1, q2, q3) =
     (let a = sqrt (q0 * q0 + q1 * q1 + q2 * q2 + q3 * q3)
      in if a > 1 / 10 ^ 10 then (q0 / a, q1 / a, q2 / a, q3 / a) else (0, 0, 0, 1))"

fun NQuat_mult :: "NQuat \<Rightarrow> NQuat \<Rightarrow> NQuat" where
  "NQuat_mult (a0, a1, a2, a3) (b0, b1, b2, b3) =
     (b0 - a2 * b1 + a1 * b2 + a0 * b3,
      a2 * b0 + b1 - a0 * b2 + a1 * b3,
      - a1 * b0 + a0 * b1 + b2 + a2 * b3,
      - a0 * b0 - a1 * b1 - a2 * b2 + a3 * b3)"

definition NQuat_setIdentity :: NQuat where
  "NQuat_setIdentity = (0, 0, 0, 1)"

definition NquatToRotVec :: "NQuat \<Rightarrow> vec3" where
  "NquatToRotVec q =
     (let c = scalarpart q; v = vecpart q; s = vnorm v
      in if s \<ge> 1 / 10 ^ 10 then (let a = 2 * atan2 s c in vdiv (vscale v a) s)
         else vscale v 2)"

fun NrotVecToQuat :: "vec3 \<Rightarrow> NQuat" where
  "NrotVecToQuat (v0, v1, v2) =
     (let a = vnorm (v0, v1, v2); q3 = cos (a / 2)
      in if a \<ge> 1 / 10 ^ 10
         then (let b = sin (a / 2) / a in NQuat_normalize (b * v0, b * v1, b * v2, q3))
         else NQuat_normalize (v0, v1, v2, q3))"

subsection \<open>LieG\<close>

text \<open>
  \<open>LieG<N,M,L>\<close> holds \<open>N\<close> scalars, \<open>M\<close> 3-vectors and \<open>L\<close> NQuat values in three
  arrays; the template arguments are the lengths of the three lists. The tangent vector
  \<open>LieA\<close>, a column of \<open>N+M*3+L*3\<close> doubles, is a list of that length.
\<close>

record LieG =
  scalars :: "real list"
  vectors :: "vec3 list"
  quats :: "NQuat list"

definition reset :: "LieG \<Rightarrow> LieG" where
  "reset x =
     \<lparr>scalars = replicate (length (scalars x)) 0,
      vectors = replicate (length (vectors x)) (0, 0, 0),
      quats = replicate (length (quats x)) NQuat_setIdentity\<rparr>"

definition getDim :: "LieG \<Rightarrow> nat" where
  "getDim x = length (scalars x) + 3 * (length (vectors x) + length (quats x))"

fun vec_list :: "vec3 \<Rightarrow> real list" where
  "vec_list (x, y, z) = [x, y, z]"

text \<open>\<open>d.block<3,1>(k,0)\<close>: the three entries of \<open>d\<close> from index \<open>k\<close> on.\<close>

definition block3 :: "real list \<Rightarrow> nat \<Rightarrow> vec3" where
  "block3 d k = (d ! k, d ! (k + 1), d ! (k + 2))"

text \<open>
  \<open>operator-\<close> and \<open>operator+\<close> of \<open>LieG\<close> are member templates that the header never
  instantiates, and their bodies are ill-formed in every instantiation: line 377 passes
  the NQuat \<open>y(i)\<close> to \<open>quatInverse\<close>, which takes a \<open>Quat\<close>, and multiplies an NQuat by
  the \<open>Quat\<close> it returns, and the classes \<open>NQuat\<close> and \<open>Eigen::Vector4d\<close> convert in
  neither direction; lines 374, 377, 389 and 392 call \<open>block<3,1>\<close> on an object of
  dependent type without the keyword \<open>template\<close>; the arguments \<open>NN\<close>, \<open>MM\<close>, \<open>LL\<close> of
  \<open>operator+\<close> cannot be deduced from its operand. A call of either operator does not
  compile, so it has no value.
\<close>

datatype cxx_error = IllFormed

definition LieG_minus :: "LieG \<Rightarrow> LieG \<Rightarrow> cxx_error + real list" where
  "LieG_minus x y = Inl IllFormed"

definition LieG_plus :: "nat \<Rightarrow> nat \<Rightarrow> nat \<Rightarrow> LieG \<Rightarrow> real list \<Rightarrow> cxx_error + LieG" where
  "LieG_plus NN MM LL x d = Inl IllFormed"

text \<open>
  What the loops of \<open>operator-\<close> compute once the body is made to compile in the
  obvious way: an NQuat and a \<open>Quat\<close> with the same four components are identified (as
  the synonym \<open>NQuat\<close> does) and \<open>block<3,1>\<close> is the member template. This is a reading
  of the body, not the operator of the source. For \<open>x : LieG<N,M,L>\<close> and
  \<open>y : LieG<NN,MM,LL>\<close> the three loops run to \<open>NN\<close>, \<open>MM\<close>, \<open>LL\<close>, read slot \<open>i\<close> of
  both operands and write the entries \<open>i\<close>, \<open>NN+i*3..\<close>, \<open>NN+MM*3+i*3..\<close> of an
  uninitialised \<open>LieA\<close> of \<open>N+M*3+L*3\<close> entries. When a count of \<open>y\<close> exceeds that of
  \<open>x\<close> a loop reads past an array of \<open>x\<close>; when the counts differ otherwise, entries of
  the result are never written: \<open>None\<close>.
\<close>

definition LieG_minus_body :: "LieG \<Rightarrow> LieG \<Rightarrow> real list option" where
  "LieG_minus_body x y =
     (let NN = length (scalars y); MM = length (vectors y); LL = length (quats y)
      in if NN = length (scalars x) \<and> MM = length (vectors x) \<and> LL = length (quats x)
         then Some
           (map (\<lambda>i. scalars x ! i - scalars y ! i) [0..<NN] @
            concat (map (\<lambda>i. vec_list (vsub (vectors x ! i) (vectors y ! i))) [0..<MM]) @
            concat (map (\<lambda>i. vec_list (NquatToRotVec
                      (NQuat_mult (quats x ! i) (quatInverse (quats y ! i))))) [0..<LL]))
         else None)"

text \<open>
  The loops of \<open>operator+\<close> under the same reading, for \<open>x : LieG<N,M,L>\<close>, \<open>d\<close> its
  \<open>LieA\<close>, and the result type \<open>LieG<NN,MM,LL>\<close> given by the caller. The loops run to
  \<open>NN\<close>, \<open>MM\<close>, \<open>LL\<close> and read slot \<open>i\<close> of \<open>x\<close>, so a result count above that of \<open>x\<close>
  reads past an array: \<open>None\<close>.
\<close>

definition LieG_plus_body :: "nat \<Rightarrow> nat \<Rightarrow> nat \<Rightarrow> LieG \<Rightarrow> real list \<Rightarrow> LieG option" where
  "LieG_plus_body NN MM LL x d =
     (if NN \<le> length (scalars x) \<and> MM \<le> length (vectors x) \<and> LL \<le> length (quats x) \<and>
         length d = length (scalars x) + length (vectors x) * 3 + length (quats x) * 3
      then Some
        \<lparr>scalars = map (\<lambda>i. scalars x ! i + d ! i) [0..<NN],
         vectors = map (\<lambda>i. vadd (vectors x ! i) (block3 d (NN + i * 3))) [0..<MM],
         quats = map (\<lambda>i. NQuat_mult (NrotVecToQuat (block3 d (NN + MM * 3 + i * 3)))
                            (quats x ! i)) [0..<LL]\<rparr>
      else None)"

subsection \<open>Closeness up to a tolerance\<close>

definition approx :: "real \<Rightarrow> real \<Rightarrow> real \<Rightarrow> bool" where
  "approx tol a b = (\<bar>a - b\<bar> \<le> tol)"

fun vapprox :: "real \<Rightarrow> vec3 \<Rightarrow> vec3 \<Rightarrow> bool" where
  "vapprox tol (a, b, c) (x, y, z) = (approx tol a x \<and> approx tol b y \<and> approx tol c z)"

fun qapprox :: "real \<Rightarrow> Quat \<Rightarrow> Quat \<Rightarrow> bool" where
  "qapprox tol (a, b, c, d) (x, y, z, w) =
     (approx tol a x \<and> approx tol b y \<and> approx tol c z \<and> approx tol d w)"

definition LieG_approx :: "real \<Rightarrow> LieG \<Rightarrow> LieG \<Rightarrow> bool" where
  "LieG_approx tol x y =
     (list_all2 (approx tol) (scalars x) (scalars y) \<and>
      list_all2 (vapprox tol) (vectors x) (vectors y) \<and>
      list_all2 (qapprox tol) (quats x) (quats y))"

section \<open>Auxiliary facts on norms and atan2\<close>

lemma tiny_le_pi: "1 \<le> pi * 10000000000"
  using pi_ge_two by linarith

lemma above_tiny_pos:
  fixes t :: real
  assumes "1 / 10 ^ 10 \<le> t"
  shows "0 < t"
proof -
  have "(0 :: real) < 1 / 10 ^ 10" by simp
  then show ?thesis using assms by linarith
qed

lemma vnorm_nonneg: "0 \<le> vnorm v"
  by (cases v) simp

lemma vnorm_vscale: "vnorm (vscale v k) = vnorm v * \<bar>k\<bar>"
proof (cases v)
  case (fields x y z)
  have "x * k * (x * k) + y * k * (y * k) + z * k * (z * k) = (x * x + y * y + z * z) * k\<^sup>2"
    by (simp add: power2_eq_square algebra_simps)
  then show ?thesis using fields by (simp add: real_sqrt_mult)
qed

lemma vnorm_vdiv: "vnorm (vdiv v s) = vnorm v / \<bar>s\<bar>"
proof (cases v)
  case (fields x y z)
  have "x / s * (x / s) + y / s * (y / s) + z / s * (z / s) = (x * x + y * y + z * z) / s\<^sup>2"
    by (simp add: power2_eq_square add_divide_distrib)
  then show ?thesis using fields by (simp add: real_sqrt_divide)
qed

lemma atan2_pos_range:
  assumes "0 < s"
  shows "0 < atan2 s c" and "atan2 s c < pi" and "0 \<le> c \<Longrightarrow> atan2 s c \<le> pi / 2"
    and "c < 0 \<Longrightarrow> pi / 2 < atan2 s c"
proof -
  consider "0 < c" | "c < 0" | "c = 0" by linarith
  then have "0 < atan2 s c \<and> atan2 s c < pi \<and> (0 \<le> c \<longrightarrow> atan2 s c \<le> pi / 2)
     \<and> (c < 0 \<longrightarrow> pi / 2 < atan2 s c)"
  proof cases
    case 1
    have eq: "atan2 s c = arctan (s / c)" using 1 by (simp add: atan2_def)
    have "0 < s / c" using 1 assms by simp
    then have lo: "0 < arctan (s / c)" by (simp only: zero_less_arctan_iff)
    have hi: "arctan (s / c) < pi / 2" by (rule arctan_ubound)
    show ?thesis unfolding eq using lo hi 1 pi_gt_zero by (intro conjI impI) linarith+
  next
    case 2
    have eq: "atan2 s c = arctan (s / c) + pi" using 2 assms by (simp add: atan2_def)
    have "s / c < 0" using 2 assms by (simp add: divide_pos_neg)
    then have hi: "arctan (s / c) < 0" by (simp only: arctan_less_zero_iff)
    have lo: "- (pi / 2) < arctan (s / c)" by (rule arctan_lbound)
    show ?thesis unfolding eq using lo hi 2 pi_gt_zero by (intro conjI impI) linarith+
  next
    case 3
    have eq: "atan2 s c = pi / 2" using 3 assms by (simp add: atan2_def)
    show ?thesis unfolding eq using 3 pi_gt_zero by (intro conjI impI) linarith+
  qed
  then show "0 < atan2 s c" and "atan2 s c < pi" and "0 \<le> c \<Longrightarrow> atan2 s c \<le> pi / 2"
    and "c < 0 \<Longrightarrow> pi / 2 < atan2 s c" by simp_all
qed

lemma quatToRotVec_large:
  assumes "1 / 10 ^ 10 \<le> vnorm (vecpart q)"
  shows "quatToRotVec q =
    vdiv (vscale (vecpart q) (2 * atan2 (vnorm (vecpart q)) (scalarpart q))) (vnorm (vecpart q))"
  using assms by (simp add: quatToRotVec_def Let_def)

lemma quatToRotVec_small:
  assumes "vnorm (vecpart q) < 1 / 10 ^ 10"
  shows "quatToRotVec q = vscale (vecpart q) 2"
  using assms by (simp add: quatToRotVec_def Let_def)

lemma vnorm_quatToRotVec_large:
  assumes "1 / 10 ^ 10 \<le> vnorm (vecpart q)"
  shows "vnorm (quatToRotVec q) = 2 * atan2 (vnorm (vecpart q)) (scalarpart q)"
proof -
  have pos: "0 < vnorm (vecpart q)" using assms by (rule above_tiny_pos)
  have "0 < atan2 (vnorm (vecpart q)) (scalarpart q)" using pos by (rule atan2_pos_range)
  then show ?thesis using pos by (simp add: quatToRotVec_large [OF assms] vnorm_vdiv vnorm_vscale)
qed

lemma vnorm_quatToRotVec_bounds:
  "0 \<le> vnorm (quatToRotVec q)" "vnorm (quatToRotVec q) \<le> 2 * pi"
  "0 \<le> scalarpart q \<Longrightarrow> vnorm (quatToRotVec q) \<le> pi"
proof -
  show "0 \<le> vnorm (quatToRotVec q)" by (rule vnorm_nonneg)
  have small: "vnorm (quatToRotVec q) \<le> 2" if "vnorm (vecpart q) < 1 / 10 ^ 10"
    using that vnorm_nonneg [of "vecpart q"]
    by (simp add: quatToRotVec_small vnorm_vscale)
  show "vnorm (quatToRotVec q) \<le> 2 * pi"
  proof (cases "1 / 10 ^ 10 \<le> vnorm (vecpart q)")
    case True
    then have pos: "0 < vnorm (vecpart q)" by (rule above_tiny_pos)
    show ?thesis using atan2_pos_range(2) [OF pos, of "scalarpart q"]
      by (simp add: vnorm_quatToRotVec_large [OF True])
  next
    case False
    then show ?thesis using small pi_ge_two by force
  qed
  show "vnorm (quatToRotVec q) \<le> pi" if c: "0 \<le> scalarpart q"
  proof (cases "1 / 10 ^ 10 \<le> vnorm (vecpart q)")
    case True
    then have pos: "0 < vnorm (vecpart q)" by (rule above_tiny_pos)
    show ?thesis using atan2_pos_range(3) [OF pos c]
      by (simp add: vnorm_quatToRotVec_large [OF True])
  next
    case False
    then show ?thesis using small pi_ge_two by force
  qed
qed

section \<open>Quaternion multiplication matrices\<close>

lemma hamilton_product_components:
  "hamilton_product (p0, p1, p2, p3) (q0, q1, q2, q3) =
     (p3 * q0 + q3 * p0 + (p1 * q2 - p2 * q1),
      p3 * q1 + q3 * p1 + (p2 * q0 - p0 * q2),
      p3 * q2 + q3 * p2 + (p0 * q1 - p1 * q0),
      p3 * q3 - (p0 * q0 + p1 * q1 + p2 * q2))"
  by (simp add: hamilton_product_def)

text \<open>
  The product so defined has the multiplication table of the units \<open>i\<close>, \<open>j\<close>, \<open>k\<close>, the
  neutral element \<open>(0,0,0,1)\<close>, and is associative.
\<close>

lemma hamilton_product_units:
  "hamilton_product (1, 0, 0, 0) (1, 0, 0, 0) = (0, 0, 0, - 1)"
  "hamilton_product (0, 1, 0, 0) (0, 1, 0, 0) = (0, 0, 0, - 1)"
  "hamilton_product (0, 0, 1, 0) (0, 0, 1, 0) = (0, 0, 0, - 1)"
  "hamilton_product (1, 0, 0, 0) (0, 1, 0, 0) = (0, 0, 1, 0)"
  "hamilton_product (0, 1, 0, 0) (0, 0, 1, 0) = (1, 0, 0, 0)"
  "hamilton_product (0, 0, 1, 0) (1, 0, 0, 0) = (0, 1, 0, 0)"
  "hamilton_product (0, 1, 0, 0) (1, 0, 0, 0) = (0, 0, - 1, 0)"
  by (simp_all add: hamilton_product_def)

lemma hamilton_product_one:
  "hamilton_product (0, 0, 0, 1) q = q" "hamilton_product q (0, 0, 0, 1) = q"
  by (cases q, simp add: hamilton_product_def)+

lemma hamilton_product_assoc:
  "hamilton_product (hamilton_product p q) r = hamilton_product p (hamilton_product q r)"
  by (cases p, cases q, cases r) (simp add: hamilton_product_components algebra_simps)

text \<open>
  C10. For all quaternions \<open>p\<close> and \<open>q\<close>, with no assumption on their norm, the
  left-multiplication matrix of \<open>p\<close> applied to \<open>q\<close> and the right-multiplication matrix of
  \<open>q\<close> applied to \<open>p\<close> are the same 4-vector, and that vector is the Hamilton product of
  \<open>p\<close> and \<open>q\<close>.
\<close>

theorem quatL_quatR_hamilton:
  "mat4_apply (quatL p) q = mat4_apply (quatR q) p \<and>
   mat4_apply (quatL p) q = hamilton_product p q \<and>
   mat4_apply (quatR q) p = hamilton_product p q"
  by (cases p, cases q) (simp add: mat4_Identity_def hamilton_product_def algebra_simps)

section \<open>The NQuat product\<close>

text \<open>
  The first three components of \<open>NQuat_mult a b\<close> carry \<open>b0\<close>, \<open>b1\<close>, \<open>b2\<close> where the
  matrix \<open>quatL a\<close> has \<open>a3 * b0\<close>, \<open>a3 * b1\<close>, \<open>a3 * b2\<close>; the fourth component is that
  of \<open>quatL a\<close> applied to \<open>b\<close>.
\<close>

lemma NQuat_mult_quatL_difference:
  "NQuat_mult (a0, a1, a2, a3) (b0, b1, b2, b3) =
     (case mat4_apply (quatL (a0, a1, a2, a3)) (b0, b1, b2, b3) of
        (h0, h1, h2, h3) \<Rightarrow>
          (h0 + (1 - a3) * b0, h1 + (1 - a3) * b1, h2 + (1 - a3) * b2, h3))"
  by (simp add: mat4_Identity_def algebra_simps)

text \<open>
  C1. The claim is that \<open>a * b\<close> of NQuat is the Hamilton product, the 4-vector
  \<open>quatL a\<close> applied to \<open>b\<close> and \<open>quatR b\<close> applied to \<open>a\<close>. At the unit quaternions
  \<open>a = b = (1,0,0,0)\<close> the NQuat product is \<open>(1,0,0,-1)\<close>, while both matrices give
  \<open>(0,0,0,-1)\<close>.
\<close>

theorem NQuat_mult_misses_Hamilton:
  "NQuat_mult (1, 0, 0, 0) (1, 0, 0, 0) = (1, 0, 0, - 1) \<and>
   mat4_apply (quatL (1, 0, 0, 0)) (1, 0, 0, 0) = (0, 0, 0, - 1) \<and>
   mat4_apply (quatR (1, 0, 0, 0)) (1, 0, 0, 0) = (0, 0, 0, - 1)"
  by (simp add: mat4_Identity_def)

lemma quatInverse_involution: "quatInverse (quatInverse q) = q"
  by (cases q) simp

lemma NQuat_mult_quatInverse:
  "NQuat_mult (q0, q1, q2, q3) (quatInverse (q0, q1, q2, q3)) =
     (q0 * (q3 - 1), q1 * (q3 - 1), q2 * (q3 - 1), q0 * q0 + q1 * q1 + q2 * q2 + q3 * q3)"
  by (simp add: algebra_simps)

text \<open>
  C6. The claim is that for a unit quaternion \<open>q\<close> the inverse of the inverse is \<open>q\<close>
  and \<open>q * quatInverse q\<close> is, up to rounding, the identity \<open>(0,0,0,1)\<close>. At the unit
  quaternion \<open>q = (1,0,0,0)\<close> the double inverse is \<open>q\<close>, and the NQuat product of \<open>q\<close> and
  its inverse is \<open>(-1,0,0,1)\<close>, at distance 1 from the identity.
\<close>

theorem NQuat_mult_inverse_not_identity:
  "qnorm (1, 0, 0, 0) = 1 \<and>
   quatInverse (quatInverse (1, 0, 0, 0)) = (1, 0, 0, 0) \<and>
   NQuat_mult (1, 0, 0, 0) (quatInverse (1, 0, 0, 0)) = (- 1, 0, 0, 1) \<and>
   \<not> qapprox (1 / 2) (NQuat_mult (1, 0, 0, 0) (quatInverse (1, 0, 0, 0))) quatIdentity"
  by (simp add: quatIdentity_def approx_def)

section \<open>The rotation by pi about the first axis\<close>

lemma NrotVecToQuat_pi: "NrotVecToQuat (pi, 0, 0) = (1, 0, 0, 0)"
  using tiny_le_pi by (simp add: Let_def)

lemma atan2_one_minus_one: "atan2 1 (- 1) = 3 * pi / 4"
  by (simp add: atan2_def arctan_minus arctan_one)

text \<open>
  C2. The claim is that the identity quaternion converts to the rotation vector
  \<open>(0,0,0)\<close>, that the rotation vector \<open>(pi,0,0)\<close> converts to the quaternion \<open>(1,0,0,0)\<close>,
  and that the NQuat product of that quaternion with itself is the identity. The first
  two hold. The NQuat product is \<open>(1,0,0,-1)\<close>: it is not within \<open>1/2\<close> of the identity
  \<open>(0,0,0,1)\<close>, it has norm \<open>sqrt 2\<close>, and its rotation vector is \<open>(3 * pi / 2, 0, 0)\<close>.
  The matrix \<open>quatL\<close> of the same quaternion applied to it gives \<open>(0,0,0,-1)\<close>, whose
  rotation vector is \<open>(0,0,0)\<close>.
\<close>

theorem pi_rotation_square_misses_identity:
  "quatToRotVec (0, 0, 0, 1) = (0, 0, 0) \<and>
   NrotVecToQuat (pi, 0, 0) = (1, 0, 0, 0) \<and>
   NQuat_mult (NrotVecToQuat (pi, 0, 0)) (NrotVecToQuat (pi, 0, 0)) = (1, 0, 0, - 1) \<and>
   \<not> qapprox (1 / 2)
       (NQuat_mult (NrotVecToQuat (pi, 0, 0)) (NrotVecToQuat (pi, 0, 0))) quatIdentity \<and>
   qnorm (1, 0, 0, - 1) = sqrt 2 \<and>
   NquatToRotVec (1, 0, 0, - 1) = (3 * pi / 2, 0, 0) \<and>
   mat4_apply (quatL (NrotVecToQuat (pi, 0, 0))) (NrotVecToQuat (pi, 0, 0)) = (0, 0, 0, - 1) \<and>
   NquatToRotVec (0, 0, 0, - 1) = (0, 0, 0)"
  by (simp add: quatToRotVec_def NquatToRotVec_def NrotVecToQuat_pi quatIdentity_def approx_def
      mat4_Identity_def atan2_one_minus_one del: NrotVecToQuat.simps)

section \<open>Quaternion to rotation vector\<close>

text \<open>
  C5, as the code has it. \<open>quatToRotVec q\<close> is \<open>v * (2 * atan2 (norm v) w) / norm v\<close> when
  the vector part \<open>v\<close> has norm at least \<open>1e-10\<close> and \<open>v * 2\<close> below; \<open>NquatToRotVec\<close> is
  the same function; the norm of the result lies in \<open>[0, 2 * pi]\<close> for every quaternion,
  and in \<open>[0, pi]\<close> when the scalar part is not negative.
\<close>

theorem quatToRotVec_branches_and_range:
  "(1 / 10 ^ 10 \<le> vnorm (vecpart q) \<longrightarrow>
      quatToRotVec q =
        vdiv (vscale (vecpart q) (2 * atan2 (vnorm (vecpart q)) (scalarpart q)))
          (vnorm (vecpart q))) \<and>
   (vnorm (vecpart q) < 1 / 10 ^ 10 \<longrightarrow> quatToRotVec q = vscale (vecpart q) 2) \<and>
   NquatToRotVec q = quatToRotVec q \<and>
   0 \<le> vnorm (quatToRotVec q) \<and> vnorm (quatToRotVec q) \<le> 2 * pi \<and>
   (0 \<le> scalarpart q \<longrightarrow> vnorm (quatToRotVec q) \<le> pi)"
  using quatToRotVec_large [of q] quatToRotVec_small [of q] vnorm_quatToRotVec_bounds [of q]
  by (simp add: NquatToRotVec_def quatToRotVec_def)

theorem quatToRotVec_branches_and_range_witness:
  "quatToRotVec (0, 0, 0, 1) = (0, 0, 0) \<and> vnorm (quatToRotVec (0, 0, 0, 1)) \<le> pi \<and>
   quatToRotVec (1, 0, 0, 0) = (pi, 0, 0)"
proof -
  have a: "vnorm (vecpart (0, 0, 0, 1)) < 1 / 10 ^ 10" by simp
  have b: "1 / 10 ^ 10 \<le> vnorm (vecpart (1, 0, 0, 0))" by simp
  show ?thesis
    using quatToRotVec_branches_and_range [of "(0, 0, 0, 1)"]
      quatToRotVec_branches_and_range [of "(1, 0, 0, 0)"] a b
    by (simp add: atan2_def)
qed

text \<open>
  C5, as the claim has it: the rotation angle of a unit quaternion would be at most
  \<open>pi\<close>. The unit quaternion \<open>(3/5, 0, 0, -4/5)\<close> has a negative scalar part, and the
  norm of its rotation vector exceeds \<open>pi\<close>.
\<close>

theorem quatToRotVec_angle_exceeds_pi:
  "qnorm (3 / 5, 0, 0, - (4 / 5)) = 1 \<and> pi < vnorm (quatToRotVec (3 / 5, 0, 0, - (4 / 5)))"
proof -
  have n: "vnorm (vecpart (3 / 5, 0, 0, - (4 / 5))) = 3 / 5"
    using real_sqrt_abs2 [of "3 / 5"] by simp
  have big: "1 / 10 ^ 10 \<le> vnorm (vecpart (3 / 5, 0, 0, - (4 / 5)))" unfolding n by simp
  have "pi / 2 < atan2 (3 / 5) (- (4 / 5))" by (rule atan2_pos_range(4)) simp_all
  then have "pi < vnorm (quatToRotVec (3 / 5, 0, 0, - (4 / 5)))"
    unfolding vnorm_quatToRotVec_large [OF big] n by simp
  moreover have "qnorm (3 / 5, 0, 0, - (4 / 5)) = 1"
    by (simp add: field_simps)
  ultimately show ?thesis by simp
qed

section \<open>Wrapping a rotation vector\<close>

lemma wrap_bounds:
  fixes a :: real
  defines "k \<equiv> \<lfloor>(a + pi) / (2 * pi)\<rfloor>"
  shows "- pi \<le> a - 2 * pi * of_int k" and "a - 2 * pi * of_int k < pi"
proof -
  have p: "0 < 2 * pi" using pi_gt_zero by simp
  have "of_int k \<le> (a + pi) / (2 * pi)" unfolding k_def by (rule of_int_floor_le)
  then have "of_int k * (2 * pi) \<le> a + pi" using p by (simp only: pos_le_divide_eq)
  then show "- pi \<le> a - 2 * pi * of_int k" by (simp add: algebra_simps)
  have "(a + pi) / (2 * pi) < of_int k + 1" unfolding k_def by linarith
  then have "a + pi < (of_int k + 1) * (2 * pi)" using p by (simp only: pos_divide_less_eq)
  then show "a - 2 * pi * of_int k < pi" by (simp add: algebra_simps)
qed

lemma abs_wrap_le:
  fixes a K M p :: real
  assumes "- p \<le> a - 2 * K" and "a - 2 * K < p" and "M \<le> K - p \<or> K + p \<le> M"
  shows "\<bar>a - 2 * K\<bar> \<le> \<bar>a - 2 * M\<bar>"
  using assms by linarith

lemma wrap_nearest:
  fixes a :: real and m :: int
  defines "k \<equiv> \<lfloor>(a + pi) / (2 * pi)\<rfloor>"
  shows "\<bar>a - 2 * pi * of_int k\<bar> \<le> \<bar>a - 2 * pi * of_int m\<bar>"
proof (cases "m = k")
  case True
  then show ?thesis by simp
next
  case False
  have lo: "- pi \<le> a - 2 * (pi * of_int k)" and hi: "a - 2 * (pi * of_int k) < pi"
    using wrap_bounds [of a] unfolding k_def by (simp_all only: mult.assoc)
  have far: "pi * of_int m \<le> pi * of_int k - pi \<or> pi * of_int k + pi \<le> pi * of_int m"
  proof (cases "m < k")
    case True
    then have "real_of_int m \<le> of_int k - 1" by linarith
    then have "pi * real_of_int m \<le> pi * (of_int k - 1)"
      using pi_gt_zero by (simp only: mult_le_cancel_left_pos)
    then show ?thesis by (simp add: algebra_simps)
  next
    case False
    then have "real_of_int k + 1 \<le> of_int m" using \<open>m \<noteq> k\<close> by linarith
    then have "pi * (real_of_int k + 1) \<le> pi * of_int m"
      using pi_gt_zero by (simp only: mult_le_cancel_left_pos)
    then show ?thesis by (simp add: algebra_simps)
  qed
  show ?thesis using abs_wrap_le [OF lo hi far] by (simp only: mult.assoc)
qed

lemma rangePi_exact_small: "vnorm v \<le> pi \<Longrightarrow> rangePi_exact v = v"
  by (simp add: rangePi_exact_def)

lemma rangePi_exact_large:
  "pi < vnorm v \<Longrightarrow>
   rangePi_exact v = vscale (vdiv v (vnorm v))
                 (vnorm v - 2 * pi * of_int \<lfloor>(vnorm v + pi) / (2 * pi)\<rfloor>)"
  by (simp add: rangePi_exact_def Let_def)

lemma vnorm_rangePi_exact_large:
  assumes "pi < vnorm v"
  shows "vnorm (rangePi_exact v) = \<bar>vnorm v - 2 * pi * of_int \<lfloor>(vnorm v + pi) / (2 * pi)\<rfloor>\<bar>"
proof -
  have "0 < vnorm v" using assms pi_gt_zero by linarith
  then show ?thesis by (simp add: rangePi_exact_large [OF assms] vnorm_vscale vnorm_vdiv)
qed

lemma vnorm_rangePi_exact_le: "vnorm (rangePi_exact v) \<le> pi"
proof (cases "vnorm v \<le> pi")
  case True
  then show ?thesis by (simp add: rangePi_exact_small)
next
  case False
  then have big: "pi < vnorm v" by simp
  show ?thesis unfolding vnorm_rangePi_exact_large [OF big]
    using wrap_bounds [of "vnorm v"] by (simp add: abs_le_iff)
qed

lemma floor_two_pi_tenth: "\<lfloor>(2 * pi + 1 / 10 + pi) / (2 * pi)\<rfloor> = 1"
proof -
  have p: "0 < 2 * pi" using pi_gt_zero by simp
  have "1 * (2 * pi) \<le> 2 * pi + 1 / 10 + pi" using pi_gt_zero by linarith
  then have a: "1 \<le> (2 * pi + 1 / 10 + pi) / (2 * pi)" using p by (simp only: pos_le_divide_eq)
  have "2 * pi + 1 / 10 + pi < 2 * (2 * pi)" using pi_ge_two by linarith
  then have b: "(2 * pi + 1 / 10 + pi) / (2 * pi) < 2" using p by (simp only: pos_divide_less_eq)
  show ?thesis using a b by linarith
qed

lemma vnorm_rangePi_exact_two_pi_tenth:
  assumes "vnorm v = 2 * pi + 1 / 10"
  shows "vnorm (rangePi_exact v) = 1 / 10"
proof -
  have big: "pi < vnorm v" using assms pi_gt_zero by linarith
  show ?thesis unfolding vnorm_rangePi_exact_large [OF big] unfolding assms floor_two_pi_tenth by simp
qed

text \<open>
  In exact arithmetic the formula of \<open>rangePi\<close> does what its comment says: the vector is
  unchanged when its norm is at most \<open>pi\<close>; otherwise the result is \<open>v / a * a2\<close> with
  \<open>a\<close> the norm and \<open>a2\<close> the norm minus the multiple of \<open>2 * pi\<close> nearest to it; the norm
  of the result is at most \<open>pi\<close>; norm \<open>2 * pi + 0.1\<close> is mapped to norm \<open>0.1\<close>.
\<close>

lemma rangePi_exact_wraps:
  "(vnorm v \<le> pi \<longrightarrow> rangePi_exact v = v) \<and>
   (pi < vnorm v \<longrightarrow>
      rangePi_exact v = vscale (vdiv v (vnorm v))
                    (vnorm v - 2 * pi * of_int \<lfloor>(vnorm v + pi) / (2 * pi)\<rfloor>) \<and>
      (\<forall>m::int. \<bar>vnorm v - 2 * pi * of_int \<lfloor>(vnorm v + pi) / (2 * pi)\<rfloor>\<bar>
                 \<le> \<bar>vnorm v - 2 * pi * of_int m\<bar>)) \<and>
   vnorm (rangePi_exact v) \<le> pi \<and>
   (vnorm v = 2 * pi + 1 / 10 \<longrightarrow> vnorm (rangePi_exact v) = 1 / 10)"
  using rangePi_exact_small [of v] rangePi_exact_large [of v] wrap_nearest [of "vnorm v"]
    vnorm_rangePi_exact_le [of v] vnorm_rangePi_exact_two_pi_tenth [of v]
  by blast

subsection \<open>Evaluating rounded operations\<close>

lemma rne_near:
  assumes "\<bar>t - of_int n\<bar> < 1 / 2"
  shows "rne t = n"
proof (cases "of_int n \<le> t")
  case True
  then have f: "\<lfloor>t\<rfloor> = n" using assms by linarith
  show ?thesis unfolding rne_def f Let_def using assms True by simp
next
  case False
  then have f: "\<lfloor>t\<rfloor> = n - 1" using assms by linarith
  have "1 / 2 < t - of_int (n - 1)" using assms False by simp
  then show ?thesis unfolding rne_def f Let_def by simp
qed

lemma expo_eq:
  assumes "2 powr of_int e \<le> \<bar>x\<bar>" and "\<bar>x\<bar> < 2 powr of_int (e + 1)"
  shows "expo x = e"
proof -
  have "0 < (2 :: real) powr of_int e" by simp
  then have pos: "0 < \<bar>x\<bar>" using assms(1) by linarith
  show ?thesis unfolding expo_def
    using floor_log_eq_powr_iff [of "\<bar>x\<bar>" 2 e] pos assms by simp
qed

lemma fl_eval:
  assumes "2 powr of_int e \<le> \<bar>x\<bar>" and "\<bar>x\<bar> < 2 powr of_int (e + 1)" and "- 1022 \<le> e"
    and "\<bar>x / 2 powr of_int (e - 52) - of_int n\<bar> < 1 / 2"
  shows "fl x = of_int n * 2 powr of_int (e - 52)"
proof -
  have "0 < (2 :: real) powr of_int e" by simp
  then have nz: "x \<noteq> 0" using assms(1) by auto
  have e: "expo x = e" by (rule expo_eq [OF assms(1,2)])
  have m: "max e (- 1022) = e" using assms(3) by simp
  show ?thesis unfolding fl_def e m Let_def using nz rne_near [OF assms(4)] by simp
qed

lemma fl_eval_pos:
  fixes j :: nat
  assumes "2 ^ (j + 52) \<le> \<bar>x\<bar>" and "\<bar>x\<bar> < 2 ^ (j + 53)"
    and "\<bar>x / 2 ^ j - of_int n\<bar> < 1 / 2"
  shows "fl x = of_int n * 2 ^ j"
proof -
  have p: "(2 :: real) powr of_int (int k) = 2 ^ k" for k
    by (simp add: powr_realpow)
  have a: "2 powr of_int (int (j + 52)) \<le> \<bar>x\<bar>" unfolding p by (rule assms(1))
  have "int (j + 52) + 1 = int (j + 53)" by simp
  then have b: "\<bar>x\<bar> < 2 powr of_int (int (j + 52) + 1)" unfolding p using assms(2) by (simp only: p)
  have "int (j + 52) - 52 = int j" by simp
  then have c: "\<bar>x / 2 powr of_int (int (j + 52) - 52) - of_int n\<bar> < 1 / 2"
    using assms(3) by (simp only: p)
  have "fl x = of_int n * 2 powr of_int (int (j + 52) - 52)"
    by (rule fl_eval [OF a b _ c]) simp
  then show ?thesis using \<open>int (j + 52) - 52 = int j\<close> by (simp only: p)
qed

lemma fl_eval_neg:
  fixes j :: nat
  assumes "j \<le> 1074" and "2 ^ 52 \<le> \<bar>x\<bar> * 2 ^ j" and "\<bar>x\<bar> * 2 ^ j < 2 ^ 53"
    and "\<bar>x * 2 ^ j - of_int n\<bar> < 1 / 2"
  shows "fl x = of_int n / 2 ^ j"
proof -
  have p: "(2 :: real) powr of_int (- int k) = 1 / 2 ^ k" for k
    by (simp add: powr_minus powr_realpow divide_inverse)
  have q: "(2 :: real) powr of_int (52 - int j) = 2 ^ 52 / 2 ^ j"
    using powr_diff [of 2 52 "real j"] by (simp add: powr_realpow)
  have q1: "(2 :: real) powr of_int (52 - int j + 1) = 2 ^ 53 / 2 ^ j"
    using powr_diff [of 2 53 "real j"] by (simp add: powr_realpow)
  have a: "2 powr of_int (52 - int j) \<le> \<bar>x\<bar>" unfolding q using assms(2) by (simp add: field_simps)
  have b: "\<bar>x\<bar> < 2 powr of_int (52 - int j + 1)" unfolding q1 using assms(3) by (simp add: field_simps)
  have e: "52 - int j - 52 = - int j" by simp
  have c: "\<bar>x / 2 powr of_int (52 - int j - 52) - of_int n\<bar> < 1 / 2"
    unfolding e p using assms(4) by simp
  have "fl x = of_int n * 2 powr of_int (52 - int j - 52)"
    by (rule fl_eval [OF a b _ c]) (use assms(1) in simp)
  then show ?thesis unfolding e p by simp
qed

lemma dbl_eval: "fl x = y \<Longrightarrow> \<bar>y\<bar> < 2 ^ 1024 \<Longrightarrow> dbl x = Some y"
  by (simp add: dbl_def)

lemma fl_zero: "fl 0 = 0"
  by (simp add: fl_def)

lemma dbl_zero: "dbl 0 = Some 0"
  by (rule dbl_eval) (simp_all add: fl_zero)

lemma dbl_square: "dbl 100000000000000000000000000000000 = Some 100000000000000005366162204393472"
proof -
  have "fl 100000000000000000000000000000000 = of_int 5551115123125783 * 2 ^ 54"
    by (rule fl_eval_pos) simp_all
  then have "fl 100000000000000000000000000000000 = 100000000000000005366162204393472" by simp
  then show ?thesis by (rule dbl_eval) simp
qed

lemma dbl_square_kept:
  "dbl 100000000000000005366162204393472 = Some 100000000000000005366162204393472"
proof -
  have "fl 100000000000000005366162204393472 = of_int 5551115123125783 * 2 ^ 54"
    by (rule fl_eval_pos) simp_all
  then have "fl 100000000000000005366162204393472 = 100000000000000005366162204393472" by simp
  then show ?thesis by (rule dbl_eval) simp
qed

lemma sqrt_square_bounds:
  "10000000000000000 \<le> sqrt 100000000000000005366162204393472"
  "sqrt 100000000000000005366162204393472 < 10000000000000001"
proof -
  have "sqrt (10000000000000000\<^sup>2) \<le> sqrt 100000000000000005366162204393472"
    by (subst real_sqrt_le_iff) simp
  then show "10000000000000000 \<le> sqrt 100000000000000005366162204393472"
    by simp
  have "sqrt 100000000000000005366162204393472 < sqrt (10000000000000001\<^sup>2)"
    by (subst real_sqrt_less_iff) simp
  then show "sqrt 100000000000000005366162204393472 < 10000000000000001"
    by simp
qed

lemma dbl_sqrt_square: "dbl (sqrt 100000000000000005366162204393472) = Some 10000000000000000"
proof -
  define r :: real where "r = sqrt 100000000000000005366162204393472"
  have b: "10000000000000000 \<le> r" "r < 10000000000000001"
    unfolding r_def by (rule sqrt_square_bounds)+
  have "fl r = of_int 5000000000000000 * 2 ^ 1"
    by (rule fl_eval_pos) (use b in simp_all)
  then have "fl r = 10000000000000000" by simp
  then have "dbl r = Some 10000000000000000" by (rule dbl_eval) simp
  then show ?thesis unfolding r_def .
qed

lemma vnormD_big: "vnormD (10000000000000000, 0, 0) = Some 10000000000000000"
  by (simp add: dmul_def dadd_def dsqrt_def dbl_zero dbl_square dbl_square_kept dbl_sqrt_square)

lemma dbl_sum: "dbl (10000000000000000 + M_PI) = Some 10000000000000004"
proof -
  have "fl (10000000000000000 + M_PI) = of_int 5000000000000002 * 2 ^ 1"
    by (rule fl_eval_pos) (simp_all add: M_PI_def)
  then have "fl (10000000000000000 + M_PI) = 10000000000000004" by simp
  then show ?thesis by (rule dbl_eval) simp
qed

lemma dbl_two_pi: "dbl (2 * M_PI) = Some (2 * M_PI)"
proof -
  have "fl (2 * M_PI) = of_int 7074237752028440 / 2 ^ 50"
    by (rule fl_eval_neg) (simp_all add: M_PI_def)
  then have "fl (2 * M_PI) = 2 * M_PI" by (simp add: M_PI_def)
  then show ?thesis by (rule dbl_eval) (simp add: M_PI_def)
qed

lemma dbl_minus_two_pi: "dbl (- 2 * M_PI) = Some (- 2 * M_PI)"
proof -
  have "fl (- 2 * M_PI) = of_int (- 7074237752028440) / 2 ^ 50"
    by (rule fl_eval_neg) (simp_all add: M_PI_def)
  then have "fl (- 2 * M_PI) = - 2 * M_PI" by (simp add: M_PI_def)
  then show ?thesis by (rule dbl_eval) (simp add: M_PI_def)
qed

lemma dbl_quotient: "dbl (10000000000000004 / (2 * M_PI)) = Some 1591549430918954"
proof -
  have "fl (10000000000000004 / (2 * M_PI)) = of_int 6366197723675816 / 2 ^ 2"
    by (rule fl_eval_neg) (simp_all add: M_PI_def)
  then have "fl (10000000000000004 / (2 * M_PI)) = 1591549430918954" by simp
  then show ?thesis by (rule dbl_eval) simp
qed

lemma dbl_product: "dbl (- 2 * M_PI * 1591549430918954) = Some (- 10000000000000004)"
proof -
  have "fl (- 2 * M_PI * 1591549430918954) = of_int (- 5000000000000002) * 2 ^ 1"
    by (rule fl_eval_pos) (simp_all add: M_PI_def)
  then have "fl (- 2 * M_PI * 1591549430918954) = - 10000000000000004" by simp
  then show ?thesis by (rule dbl_eval) simp
qed

lemma dbl_minus_four: "dbl (- 4) = Some (- 4)"
proof -
  have "fl (- 4) = of_int (- 4503599627370496) / 2 ^ 50"
    by (rule fl_eval_neg) simp_all
  then have "fl (- 4) = - 4" by simp
  then show ?thesis by (rule dbl_eval) simp
qed

lemma dbl_one: "dbl 1 = Some 1"
proof -
  have "fl 1 = of_int 4503599627370496 / 2 ^ 52"
    by (rule fl_eval_neg) simp_all
  then have "fl 1 = 1" by simp
  then show ?thesis by (rule dbl_eval) simp
qed

lemma dbl_four: "dbl 4 = Some 4"
proof -
  have "fl 4 = of_int 4503599627370496 / 2 ^ 50"
    by (rule fl_eval_neg) simp_all
  then have "fl 4 = 4" by simp
  then show ?thesis by (rule dbl_eval) simp
qed

lemma dbl_sixteen: "dbl 16 = Some 16"
proof -
  have "fl 16 = of_int 4503599627370496 / 2 ^ 48"
    by (rule fl_eval_neg) simp_all
  then have "fl 16 = 16" by simp
  then show ?thesis by (rule dbl_eval) simp
qed

lemma big_above_M_PI: "\<not> 10000000000000000 \<le> M_PI"
  by (simp add: M_PI_def)

lemma step_sum: "dadd 10000000000000000 M_PI = Some 10000000000000004"
  unfolding dadd_def by (rule dbl_sum)

lemma step_two_pi: "dmul 2 M_PI = Some (2 * M_PI)"
  unfolding dmul_def by (rule dbl_two_pi)

lemma step_quotient: "ddiv 10000000000000004 (2 * M_PI) = Some 1591549430918954"
proof -
  have "2 * M_PI \<noteq> 0" by (simp add: M_PI_def)
  then show ?thesis unfolding ddiv_def using dbl_quotient by (simp only: if_False)
qed

lemma step_minus_two_pi: "dmul (- 2) M_PI = Some (- 2 * M_PI)"
  unfolding dmul_def by (rule dbl_minus_two_pi)

lemma step_product:
  "dmul (- 2 * M_PI) (of_int \<lfloor>1591549430918954 :: real\<rfloor>) = Some (- 10000000000000004)"
proof -
  have "of_int \<lfloor>1591549430918954 :: real\<rfloor> = (1591549430918954 :: real)" by simp
  then show ?thesis unfolding dmul_def using dbl_product by (simp only:)
qed

lemma step_cancel: "dadd (- 10000000000000004) 10000000000000000 = Some (- 4)"
proof -
  have "- 10000000000000004 + 10000000000000000 = (- 4 :: real)" by simp
  then show ?thesis unfolding dadd_def using dbl_minus_four by (simp only:)
qed

lemma step_unit: "vdivD (10000000000000000, 0, 0) 10000000000000000 = Some (1, 0, 0)"
  by (simp add: ddiv_def dbl_one dbl_zero)

lemma step_scale: "vscaleD (1, 0, 0) (- 4) = Some (- 4, 0, 0)"
  by (simp add: dmul_def dbl_minus_four dbl_zero)

lemma rangePi_big: "rangePi (10000000000000000, 0, 0) = Some (- 4, 0, 0)"
  unfolding rangePi_def
  by (simp only: vnormD_big Option.bind_lunit big_above_M_PI if_False step_sum step_two_pi
      step_quotient step_minus_two_pi step_product step_cancel step_unit step_scale)

lemma vnormD_result: "vnormD (- 4, 0, 0) = Some 4"
  by (simp add: dmul_def dadd_def dsqrt_def dbl_zero dbl_sixteen dbl_four)

lemma rangePi_short_unchanged:
  "vnormD v = Some a \<Longrightarrow> a \<le> M_PI \<Longrightarrow> rangePi v = Some v"
  by (simp add: rangePi_def)

lemma dbl_big: "dbl 10000000000000000 = Some 10000000000000000"
proof -
  have "fl 10000000000000000 = of_int 5000000000000000 * 2 ^ 1"
    by (rule fl_eval_pos) simp_all
  then have "fl 10000000000000000 = 10000000000000000" by simp
  then show ?thesis by (rule dbl_eval) simp
qed

text \<open>
  C8. The claim is that \<open>rangePi\<close> leaves a vector of norm at most \<open>pi\<close> unchanged and
  otherwise subtracts the nearest multiple of \<open>2 * pi\<close> from the norm, so that the norm of
  the result is always at most \<open>pi\<close>. On doubles the last part fails for long vectors.
  \<open>1e16\<close> is a double, and for \<open>v = (1e16, 0, 0)\<close>: the norm is \<open>1e16\<close>; \<open>a + M_PI\<close>
  rounds to \<open>1e16 + 4\<close>; the quotient by \<open>2 * M_PI\<close> rounds to \<open>1591549430918954\<close>; its
  product with \<open>-2 * M_PI\<close> rounds to \<open>-(1e16 + 4)\<close>; so \<open>a2 = -4\<close> and the result is
  \<open>(-4, 0, 0)\<close>, of norm \<open>4\<close>, above \<open>M_PI\<close> and above \<open>pi\<close>.
\<close>

theorem rangePi_exceeds_pi_on_doubles:
  "dbl 10000000000000000 = Some 10000000000000000 \<and>
   vnormD (10000000000000000, 0, 0) = Some 10000000000000000 \<and>
   rangePi (10000000000000000, 0, 0) = Some (- 4, 0, 0) \<and>
   vnormD (- 4, 0, 0) = Some 4 \<and>
   M_PI < 4 \<and> pi < 4"
  using dbl_big vnormD_big rangePi_big vnormD_result pi_less_4
  by (simp add: M_PI_def)

section \<open>The gimbal-lock guard of rpyToEarInv\<close>

lemma rpyToEarInv_zero: "cos p \<le> 1 / 10 ^ 10 \<Longrightarrow> rpyToEarInv (r, p, y) = mat3_Zero"
  by (simp add: Let_def)

lemma rpyToEarInv_inverse:
  assumes "1 / 10 ^ 10 < cos p"
  shows "rpyToEarInv (r, p, y) \<noteq> mat3_Zero"
    and "mat3_mult (rpyToEarInv (r, p, y)) (rpyToEar (r, p, y)) = mat3_Identity"
    and "mat3_mult (rpyToEar (r, p, y)) (rpyToEarInv (r, p, y)) = mat3_Identity"
proof -
  have "0 < cos p" by (rule above_tiny_pos) (use assms in simp)
  then have nz: "cos p \<noteq> 0" by simp
  have sc: "sin y * sin y + cos y * cos y = 1" "cos y * cos y + sin y * sin y = 1"
    using sin_cos_squared_add [of y] by (simp_all add: power2_eq_square)
  have sp: "sin p * sin p + cos p * cos p = 1"
    using sin_cos_squared_add [of p] by (simp add: power2_eq_square)
  have inv: "rpyToEarInv (r, p, y) =
     ((1 / cos p * cos y, - (1 / cos p) * sin y, 0), (sin y, cos y, 0),
      (- cos y * tan p, sin y * tan p, 1))"
    using assms by (simp add: Let_def)
  show "rpyToEarInv (r, p, y) \<noteq> mat3_Zero" unfolding inv by (simp add: mat3_Zero_def)
  have k: "x * (cos y * cos y) + x * (sin y * sin y) = x" for x :: real
    using sc(2) by (simp only: distrib_left [symmetric] mult_1_right)
  show "mat3_mult (rpyToEarInv (r, p, y)) (rpyToEar (r, p, y)) = mat3_Identity"
    unfolding inv using nz
    by (simp add: Let_def mat3_Identity_def tan_def sc) (insert k [of "sin p"], simp add: algebra_simps)
  show "mat3_mult (rpyToEar (r, p, y)) (rpyToEarInv (r, p, y)) = mat3_Identity"
    unfolding inv using nz
    by (simp add: Let_def mat3_Identity_def tan_def sc)
qed

text \<open>
  C9. When the cosine of the pitch \<open>rpy(1)\<close> is at most \<open>1e-10\<close>, as it is at pitch
  \<open>pi / 2\<close>, \<open>rpyToEarInv\<close> returns the zero matrix; the function has no failing branch.
  When the cosine exceeds \<open>1e-10\<close> the result is not the zero matrix and is the inverse of
  \<open>rpyToEar\<close> on both sides.
\<close>

theorem rpyToEarInv_guard:
  "(cos p \<le> 1 / 10 ^ 10 \<longrightarrow> rpyToEarInv (r, p, y) = mat3_Zero) \<and>
   rpyToEarInv (r, pi / 2, y) = mat3_Zero \<and>
   (1 / 10 ^ 10 < cos p \<longrightarrow>
      rpyToEarInv (r, p, y) \<noteq> mat3_Zero \<and>
      mat3_mult (rpyToEarInv (r, p, y)) (rpyToEar (r, p, y)) = mat3_Identity \<and>
      mat3_mult (rpyToEar (r, p, y)) (rpyToEarInv (r, p, y)) = mat3_Identity)"
  using rpyToEarInv_zero [of p r y] rpyToEarInv_zero [of "pi / 2" r y]
    rpyToEarInv_inverse [of p r y]
  by simp

theorem rpyToEarInv_guard_witness:
  "rpyToEarInv (0, pi / 2, 0) = mat3_Zero \<and>
   rpyToEarInv (0, 0, 0) = mat3_Identity \<and>
   mat3_mult (rpyToEar (0, 0, 0)) (rpyToEarInv (0, 0, 0)) = mat3_Identity"
  using rpyToEarInv_guard [of "pi / 2" 0 0] rpyToEarInv_guard [of 0 0 0]
  by (simp add: mat3_Identity_def)

section \<open>Rotation vector to quaternion and back\<close>




















section \<open>Euler angles\<close>

lemma atan2_scaled:
  assumes "0 < r" and "- (pi / 2) < t" and "t < pi / 2"
  shows "atan2 (sin t * r) (cos t * r) = t"
proof -
  have c: "0 < cos t" by (rule cos_gt_zero_pi) (use assms in simp_all)
  then have pos: "0 < cos t * r" using assms(1) by simp
  have "sin t * r / (cos t * r) = tan t" using assms(1) by (simp add: tan_def)
  moreover have "arctan (tan t) = t" by (rule arctan_tan) (use assms in simp_all)
  ultimately show ?thesis using pos by (simp add: atan2_def)
qed

lemma half_angle_facts:
  fixes t :: real
  shows "sin (t / 2) * sin (t / 2) + cos (t / 2) * cos (t / 2) = 1"
    and "sin t = 2 * sin (t / 2) * cos (t / 2)"
    and "cos t = cos (t / 2) * cos (t / 2) - sin (t / 2) * sin (t / 2)"
  using sin_cos_squared_add [of "t / 2"] sin_double [of "t / 2"] cos_double [of "t / 2"]
  by (simp_all add: power2_eq_square)

lemma ypr_poly:
  fixes sa ca sb cb sc cc :: real
  assumes "sa * sa + ca * ca = 1" "sb * sb + cb * cb = 1" "sc * sc + cc * cc = 1"
  defines "q0 \<equiv> ca * sb * sc - cb * cc * sa"
    and "q1 \<equiv> - ca * sb * cc - cb * sc * sa"
    and "q2 \<equiv> - ca * cb * sc + sb * cc * sa"
    and "q3 \<equiv> ca * cb * cc + sb * sc * sa"
  shows "2 * (- q3 * q0 + q1 * q2) = (2 * sa * ca) * (cb * cb - sb * sb)"
    and "1 - 2 * (q0 ^ 2 + q1 ^ 2) = (ca * ca - sa * sa) * (cb * cb - sb * sb)"
    and "2 * (- q3 * q1 - q0 * q2) = 2 * sb * cb"
    and "2 * (- q3 * q2 + q0 * q1) = (2 * sc * cc) * (cb * cb - sb * sb)"
    and "1 - 2 * (q1 ^ 2 + q2 ^ 2) = (cc * cc - sc * sc) * (cb * cb - sb * sb)"
  using assms(1-3) unfolding q0_def q1_def q2_def q3_def by algebra+

lemma rpy_poly:
  fixes sa ca sb cb sc cc :: real
  assumes "sa * sa + ca * ca = 1" "sb * sb + cb * cb = 1" "sc * sc + cc * cc = 1"
  defines "q0 \<equiv> - ca * cb * sc - sb * cc * sa"
    and "q1 \<equiv> - ca * sb * cc + cb * sc * sa"
    and "q2 \<equiv> - ca * sb * sc - cb * cc * sa"
    and "q3 \<equiv> ca * cb * cc - sb * sc * sa"
  shows "2 * (- q2 * q1 - q3 * q0) = (2 * sc * cc) * (cb * cb - sb * sb)"
    and "q2 ^ 2 + q3 ^ 2 - q0 ^ 2 - q1 ^ 2 = (cc * cc - sc * sc) * (cb * cb - sb * sb)"
    and "2 * (q0 * q2 - q3 * q1) = 2 * sb * cb"
    and "- 2 * q0 * q1 - 2 * q3 * q2 = (2 * sa * ca) * (cb * cb - sb * sb)"
    and "q0 ^ 2 + q3 ^ 2 - q2 ^ 2 - q1 ^ 2 = (ca * ca - sa * sa) * (cb * cb - sb * sb)"
  using assms(1-3) unfolding q0_def q1_def q2_def q3_def by algebra+

lemma quatToYpr_yprToQuat:
  "quatToYpr (yprToQuat (a, b, c)) =
     (atan2 (sin a * cos b) (cos a * cos b), arcsin (sin b), atan2 (sin c * cos b) (cos c * cos b))"
  unfolding yprToQuat.simps Let_def quatToYpr.simps
  unfolding ypr_poly [OF half_angle_facts(1) half_angle_facts(1) half_angle_facts(1)]
  unfolding half_angle_facts(2,3) [symmetric] ..

lemma quatToRpy_rpyToQuat:
  "quatToRpy (rpyToQuat (a, b, c)) =
     (atan2 (sin c * cos b) (cos c * cos b), arcsin (sin b), atan2 (sin a * cos b) (cos a * cos b))"
  unfolding rpyToQuat.simps Let_def quatToRpy.simps
  unfolding rpy_poly [OF half_angle_facts(1) half_angle_facts(1) half_angle_facts(1)]
  unfolding half_angle_facts(2,3) [symmetric] ..

lemma ypr_roundtrip:
  assumes "- (pi / 2) < a" "a < pi / 2" "- (pi / 2) < b" "b < pi / 2" "- (pi / 2) < c" "c < pi / 2"
  shows "quatToYpr (yprToQuat (a, b, c)) = (a, b, c)"
proof -
  have cb: "0 < cos b" by (rule cos_gt_zero_pi) (use assms in simp_all)
  have "arcsin (sin b) = b" by (rule arcsin_sin) (use assms in simp_all)
  then show ?thesis unfolding quatToYpr_yprToQuat
    using atan2_scaled [OF cb assms(1,2)] atan2_scaled [OF cb assms(5,6)] by simp
qed

lemma rpy_roundtrip_reversed:
  assumes "- (pi / 2) < a" "a < pi / 2" "- (pi / 2) < b" "b < pi / 2" "- (pi / 2) < c" "c < pi / 2"
  shows "quatToRpy (rpyToQuat (a, b, c)) = (c, b, a)"
proof -
  have cb: "0 < cos b" by (rule cos_gt_zero_pi) (use assms in simp_all)
  have "arcsin (sin b) = b" by (rule arcsin_sin) (use assms in simp_all)
  then show ?thesis unfolding quatToRpy_rpyToQuat
    using atan2_scaled [OF cb assms(1,2)] atan2_scaled [OF cb assms(5,6)] by simp
qed

text \<open>
  C4. The claim is that each Euler-angle pair is a forward/inverse pair on triples with
  every angle strictly between \<open>-pi/2\<close> and \<open>pi/2\<close>. The yaw-pitch-roll pair is one
  (lemma \<open>ypr_roundtrip\<close>). The roll-pitch-yaw pair returns the triple in reverse order
  (lemma \<open>rpy_roundtrip_reversed\<close>): on \<open>(1/2, 0, 0)\<close> the yaw-pitch-roll round trip
  gives \<open>(1/2, 0, 0)\<close> and the roll-pitch-yaw round trip gives \<open>(0, 0, 1/2)\<close>, which
  is not within \<open>1/4\<close> of the input.
\<close>

theorem rpy_pair_returns_reversed_triple:
  "- (pi / 2) < 1 / 2 \<and> 1 / 2 < pi / 2 \<and>
   quatToYpr (yprToQuat (1 / 2, 0, 0)) = (1 / 2, 0, 0) \<and>
   quatToRpy (rpyToQuat (1 / 2, 0, 0)) = (0, 0, 1 / 2) \<and>
   \<not> vapprox (1 / 4) (quatToRpy (rpyToQuat (1 / 2, 0, 0))) (1 / 2, 0, 0)"
proof -
  have r: "- (pi / 2) < 1 / 2" "1 / 2 < pi / 2" "- (pi / 2) < 0" "0 < pi / 2"
    using pi_ge_two by simp_all
  have "quatToRpy (rpyToQuat (1 / 2, 0, 0)) = (0, 0, 1 / 2)"
    by (rule rpy_roundtrip_reversed) (rule r)+
  moreover have "quatToYpr (yprToQuat (1 / 2, 0, 0)) = (1 / 2, 0, 0)"
    by (rule ypr_roundtrip) (rule r)+
  ultimately show ?thesis using r by (simp add: approx_def del: rpyToQuat.simps quatToRpy.simps yprToQuat.simps quatToYpr.simps)
qed

section \<open>Difference and retraction of LieG\<close>

lemma length_vec_list [simp]: "length (vec_list v) = 3"
  by (cases v) simp

lemma block3_vec_list: "block3 (vec_list v @ zs) 0 = v"
  by (cases v) (simp add: block3_def)

lemma length_concat_vec: "length (concat (map (\<lambda>i. vec_list (f i)) [0..<M])) = 3 * M"
  by (induction M) simp_all

lemma block3_append_left:
  "k + 2 < length xs \<Longrightarrow> block3 (xs @ ys) k = block3 xs k"
  by (simp add: block3_def nth_append)

lemma block3_append_right: "block3 (xs @ ys) (length xs + k) = block3 ys k"
  by (simp add: block3_def nth_append)

lemma block3_concat_vec:
  "i < M \<Longrightarrow> block3 (concat (map (\<lambda>i. vec_list (f i)) [0..<M])) (i * 3) = f i"
proof (induction M)
  case 0
  then show ?case by simp
next
  case (Suc M)
  show ?case
  proof (cases "i < M")
    case True
    then have "i * 3 + 2 < length (concat (map (\<lambda>i. vec_list (f i)) [0..<M]))"
      by (simp add: length_concat_vec)
    then show ?thesis using Suc.IH [OF True] by (simp add: block3_append_left)
  next
    case False
    then have "i = M" using Suc.prems by simp
    then have "i * 3 = length (concat (map (\<lambda>i. vec_list (f i)) [0..<M])) + 0"
      by (simp add: length_concat_vec)
    then show ?thesis using \<open>i = M\<close>
      by (simp only: upt_Suc_append [OF le0] map_append concat_append block3_append_right)
        (simp add: block3_vec_list [of _ "[]", simplified])
  qed
qed

lemma block3_middle:
  assumes "i < M"
  shows "block3 (as @ concat (map (\<lambda>i. vec_list (f i)) [0..<M]) @ cs) (length as + i * 3) = f i"
proof -
  have "i * 3 + 2 < length (concat (map (\<lambda>i. vec_list (f i)) [0..<M]))"
    using assms by (simp add: length_concat_vec)
  then show ?thesis
    by (simp only: block3_append_right block3_append_left block3_concat_vec [OF assms])
qed

lemma vadd_vsub_cancel: "vadd y (vsub x y) = x"
  by (cases x, cases y) simp

lemma vsub_self: "vsub x x = (0, 0, 0)"
  by (cases x) simp

lemma concat_zero_vecs: "concat (map (\<lambda>i. vec_list (0, 0, 0)) [0..<M]) = replicate (3 * M) 0"
proof (induction M)
  case 0
  then show ?case by simp
next
  case (Suc M)
  have three: "[0, 0, 0] = replicate 3 (0 :: real)" by (simp add: numeral_3_eq_3)
  have "concat (map (\<lambda>i. vec_list (0, 0, 0)) [0..<Suc M]) = replicate (3 * M) 0 @ [0, 0, 0]"
    using Suc.IH by simp
  also have "\<dots> = replicate (3 * M + 3) 0" unfolding three by (simp only: replicate_add)
  finally show ?case by (simp add: add.commute)
qed

lemma LieG_minus_body_matching:
  assumes "length (scalars y) = length (scalars x)"
    and "length (vectors y) = length (vectors x)"
    and "length (quats y) = length (quats x)"
  shows "LieG_minus_body x y = Some
     (map (\<lambda>i. scalars x ! i - scalars y ! i) [0..<length (scalars x)] @
      concat (map (\<lambda>i. vec_list (vsub (vectors x ! i) (vectors y ! i)))
                [0..<length (vectors x)]) @
      concat (map (\<lambda>i. vec_list (NquatToRotVec
                (NQuat_mult (quats x ! i) (quatInverse (quats y ! i)))))
                [0..<length (quats x)]))"
  using assms by (simp add: LieG_minus_body_def Let_def)

lemma LieG_plus_body_slots:
  fixes x :: LieG and as cs :: "real list" and f :: "nat \<Rightarrow> vec3" and g :: "nat \<Rightarrow> real"
  defines "N \<equiv> length (scalars x)" and "M \<equiv> length (vectors x)" and "L \<equiv> length (quats x)"
  defines "d \<equiv> map g [0..<N] @ concat (map (\<lambda>i. vec_list (f i)) [0..<M]) @ cs"
  assumes cs: "length cs = 3 * L"
  shows "\<exists>z. LieG_plus_body N M L x d = Some z \<and>
           scalars z = map (\<lambda>i. scalars x ! i + g i) [0..<N] \<and>
           vectors z = map (\<lambda>i. vadd (vectors x ! i) (f i)) [0..<M] \<and>
           length (quats z) = L"
proof -
  have len: "length d = N + M * 3 + L * 3"
    unfolding d_def by (simp add: length_concat_vec cs)
  have sc: "map (\<lambda>i. scalars x ! i + d ! i) [0..<N] = map (\<lambda>i. scalars x ! i + g i) [0..<N]"
    unfolding d_def by (rule map_cong [OF refl]) (simp add: nth_append)
  have ve: "map (\<lambda>i. vadd (vectors x ! i) (block3 d (N + i * 3))) [0..<M] =
            map (\<lambda>i. vadd (vectors x ! i) (f i)) [0..<M]"
  proof (rule map_cong [OF refl])
    fix i assume "i \<in> set [0..<M]"
    then have i: "i < M" by simp
    have "block3 d (length (map g [0..<N]) + i * 3) = f i"
      unfolding d_def by (rule block3_middle [OF i])
    then show "vadd (vectors x ! i) (block3 d (N + i * 3)) = vadd (vectors x ! i) (f i)"
      by simp
  qed
  let ?z = "\<lparr>scalars = map (\<lambda>i. scalars x ! i + d ! i) [0..<N],
             vectors = map (\<lambda>i. vadd (vectors x ! i) (block3 d (N + i * 3))) [0..<M],
             quats = map (\<lambda>i. NQuat_mult (NrotVecToQuat (block3 d (N + M * 3 + i * 3)))
                                (quats x ! i)) [0..<L]\<rparr>"
  have p: "LieG_plus_body N M L x d = Some ?z"
    using len unfolding LieG_plus_body_def N_def M_def L_def by simp
  have s: "scalars ?z = map (\<lambda>i. scalars x ! i + g i) [0..<N]" using sc by simp
  have v: "vectors ?z = map (\<lambda>i. vadd (vectors x ! i) (f i)) [0..<M]" using ve by simp
  have q: "length (quats ?z) = L" by simp
  show ?thesis using p s v q by blast
qed

lemma map_nth_sub_add:
  fixes xs ys :: "real list"
  assumes "length ys = length xs"
  shows "map (\<lambda>i. ys ! i + (xs ! i - ys ! i)) [0..<length xs] = xs"
proof -
  have "map (\<lambda>i. ys ! i + (xs ! i - ys ! i)) [0..<length xs] = map (\<lambda>i. xs ! i) [0..<length xs]"
    by (rule map_cong [OF refl]) simp
  then show ?thesis by (simp only: map_nth)
qed

lemma map_nth_vsub_vadd:
  fixes xs ys :: "vec3 list"
  shows "map (\<lambda>i. vadd (ys ! i) (vsub (xs ! i) (ys ! i))) [0..<length xs] = xs"
  by (simp only: vadd_vsub_cancel map_nth)

text \<open>
  The body of the two operators on the scalar and vector slots. For operands \<open>x\<close>, \<open>y\<close>
  with equal counts \<open>(N, M, L)\<close>: \<open>x - y\<close> is a tangent vector \<open>d\<close> of \<open>N + 3 * (M + L)\<close>
  entries; \<open>y + d\<close> has the scalars and the vectors of \<open>x\<close>, and \<open>L\<close> quaternions;
  \<open>x + d\<close> has the scalars \<open>x + (x - y)\<close> and the vectors \<open>x + (x - y)\<close>; \<open>x - x\<close> has
  the same dimension and its first \<open>N + 3 * M\<close> entries, the scalar and vector part, are
  zero.
\<close>

lemma LieG_body_linear_slots:
  assumes "length (scalars y) = length (scalars x)"
    and "length (vectors y) = length (vectors x)"
    and "length (quats y) = length (quats x)"
  shows "\<exists>d z w d0.
     LieG_minus_body x y = Some d \<and> length d = getDim x \<and>
     LieG_plus_body (length (scalars x)) (length (vectors x)) (length (quats x)) y d = Some z \<and>
     scalars z = scalars x \<and> vectors z = vectors x \<and>
     length (quats z) = length (quats x) \<and>
     LieG_plus_body (length (scalars x)) (length (vectors x)) (length (quats x)) x d = Some w \<and>
     scalars w = map (\<lambda>i. scalars x ! i + (scalars x ! i - scalars y ! i))
                   [0..<length (scalars x)] \<and>
     vectors w = map (\<lambda>i. vadd (vectors x ! i) (vsub (vectors x ! i) (vectors y ! i)))
                   [0..<length (vectors x)] \<and>
     LieG_minus_body x x = Some d0 \<and> length d0 = getDim x \<and>
     take (length (scalars x) + 3 * length (vectors x)) d0 =
       replicate (length (scalars x) + 3 * length (vectors x)) 0"
proof -
  define N where "N = length (scalars x)"
  define M where "M = length (vectors x)"
  define L where "L = length (quats x)"
  define cs where "cs = concat (map (\<lambda>i. vec_list (NquatToRotVec
      (NQuat_mult (quats x ! i) (quatInverse (quats y ! i))))) [0..<L])"
  define d where "d = map (\<lambda>i. scalars x ! i - scalars y ! i) [0..<N] @
      concat (map (\<lambda>i. vec_list (vsub (vectors x ! i) (vectors y ! i))) [0..<M]) @ cs"
  define cs0 where "cs0 = concat (map (\<lambda>i. vec_list (NquatToRotVec
      (NQuat_mult (quats x ! i) (quatInverse (quats x ! i))))) [0..<L])"
  define d0 where "d0 = map (\<lambda>i. scalars x ! i - scalars x ! i) [0..<N] @
      concat (map (\<lambda>i. vec_list (vsub (vectors x ! i) (vectors x ! i))) [0..<M]) @ cs0"
  have lcs: "length cs = 3 * L" unfolding cs_def by (rule length_concat_vec)
  have lcs0: "length cs0 = 3 * L" unfolding cs0_def by (rule length_concat_vec)
  have m: "LieG_minus_body x y = Some d"
    unfolding d_def cs_def N_def M_def L_def by (rule LieG_minus_body_matching [OF assms])
  have m0: "LieG_minus_body x x = Some d0"
    unfolding d0_def cs0_def N_def M_def L_def by (rule LieG_minus_body_matching) simp_all
  have ld: "length d = getDim x"
    unfolding d_def getDim_def by (simp add: length_concat_vec lcs N_def M_def L_def)
  have ld0: "length d0 = getDim x"
    unfolding d0_def getDim_def by (simp add: length_concat_vec lcs0 N_def M_def L_def)
  have lcsy: "length cs = 3 * length (quats y)" using lcs assms(3) unfolding L_def by simp
  obtain z where z: "LieG_plus_body (length (scalars y)) (length (vectors y)) (length (quats y)) y d = Some z"
      "scalars z = map (\<lambda>i. scalars y ! i + (scalars x ! i - scalars y ! i)) [0..<length (scalars y)]"
      "vectors z = map (\<lambda>i. vadd (vectors y ! i) (vsub (vectors x ! i) (vectors y ! i)))
                     [0..<length (vectors y)]"
      "length (quats z) = length (quats y)"
    using LieG_plus_body_slots [OF lcsy, of "\<lambda>i. scalars x ! i - scalars y ! i"
        "\<lambda>i. vsub (vectors x ! i) (vectors y ! i)"]
    unfolding d_def N_def M_def assms by blast
  obtain w where w: "LieG_plus_body N M L x d = Some w"
      "scalars w = map (\<lambda>i. scalars x ! i + (scalars x ! i - scalars y ! i)) [0..<N]"
      "vectors w = map (\<lambda>i. vadd (vectors x ! i) (vsub (vectors x ! i) (vectors y ! i))) [0..<M]"
    using LieG_plus_body_slots [OF lcs [unfolded L_def], of "\<lambda>i. scalars x ! i - scalars y ! i"
        "\<lambda>i. vsub (vectors x ! i) (vectors y ! i)"]
    unfolding d_def N_def M_def L_def by blast
  have zs: "scalars z = scalars x"
    unfolding z(2) assms(1) by (rule map_nth_sub_add [OF assms(1)])
  have zv: "vectors z = vectors x"
    unfolding z(3) assms(2) by (rule map_nth_vsub_vadd)
  have a0: "map (\<lambda>i. scalars x ! i - scalars x ! i) [0..<N] = replicate N 0"
    by (simp add: map_replicate_const)
  have b0: "concat (map (\<lambda>i. vec_list (vsub (vectors x ! i) (vectors x ! i))) [0..<M]) =
      replicate (3 * M) 0"
    by (simp only: vsub_self concat_zero_vecs)
  have "d0 = replicate (N + 3 * M) 0 @ cs0"
    unfolding d0_def a0 b0 by (simp add: replicate_add)
  then have "take (N + 3 * M) d0 = replicate (N + 3 * M) 0" by simp
  then show ?thesis
    using m ld z(1,4) zs zv w m0 ld0 unfolding assms N_def M_def L_def by blast
qed

lemma LieG_body_linear_slots_example:
  "\<exists>d z. LieG_minus_body \<lparr>scalars = [1], vectors = [(1, 0, 0)], quats = [(0, 0, 0, 1)]\<rparr>
                     \<lparr>scalars = [0], vectors = [(0, 0, 0)], quats = [(0, 0, 0, 1)]\<rparr> = Some d \<and>
         length d = 7 \<and>
         LieG_plus_body 1 1 1 \<lparr>scalars = [0], vectors = [(0, 0, 0)], quats = [(0, 0, 0, 1)]\<rparr> d = Some z \<and>
         scalars z = [1] \<and> vectors z = [(1, 0, 0)]"
proof -
  let ?x = "\<lparr>scalars = [1], vectors = [(1, 0, 0)], quats = [(0, 0, 0, 1)]\<rparr>"
  let ?y = "\<lparr>scalars = [0], vectors = [(0, 0, 0)], quats = [(0, 0, 0, 1)]\<rparr>"
  have "length (scalars ?y) = length (scalars ?x)" "length (vectors ?y) = length (vectors ?x)"
    "length (quats ?y) = length (quats ?x)" by simp_all
  from LieG_body_linear_slots [OF this] show ?thesis by (simp add: getDim_def) blast
qed

text \<open>
  On the scalar and vector slots \<open>x + (x - y)\<close> is not \<open>x\<close>. For \<open>x\<close> with scalar 1,
  vector \<open>(1,0,0)\<close> and the identity quaternion, and \<open>y\<close> with scalar 0, the zero vector
  and the identity quaternion, \<open>x - y\<close> is \<open>[1, 1,0,0, 0,0,0]\<close> and \<open>x + (x - y)\<close> has
  scalar 2 and vector \<open>(2,0,0)\<close>, not within \<open>1/2\<close> of \<open>x\<close>.
\<close>

lemma LieG_body_plus_self_difference:
  "LieG_minus_body \<lparr>scalars = [1], vectors = [(1, 0, 0)], quats = [(0, 0, 0, 1)]\<rparr>
              \<lparr>scalars = [0], vectors = [(0, 0, 0)], quats = [(0, 0, 0, 1)]\<rparr>
     = Some [1, 1, 0, 0, 0, 0, 0] \<and>
   LieG_plus_body 1 1 1 \<lparr>scalars = [1], vectors = [(1, 0, 0)], quats = [(0, 0, 0, 1)]\<rparr>
             [1, 1, 0, 0, 0, 0, 0]
     = Some \<lparr>scalars = [2], vectors = [(2, 0, 0)], quats = [(0, 0, 0, 1)]\<rparr> \<and>
   \<not> LieG_approx (1 / 2) \<lparr>scalars = [2], vectors = [(2, 0, 0)], quats = [(0, 0, 0, 1)]\<rparr>
                          \<lparr>scalars = [1], vectors = [(1, 0, 0)], quats = [(0, 0, 0, 1)]\<rparr>"
  by (simp add: LieG_minus_body_def LieG_plus_body_def LieG_approx_def approx_def NquatToRotVec_def
      block3_def Let_def)

lemma atan2_one_one: "atan2 1 1 = pi / 4"
  by (simp add: atan2_def arctan_one)

text \<open>
  C3. The claim is that for operands \<open>x\<close>, \<open>y\<close> of equal shape with unit quaternions
  \<open>x + (x - y)\<close> and \<open>y + (x - y)\<close> are \<open>x\<close> up to rounding and \<open>x - x\<close> is the zero
  tangent vector. The operators of the source cannot be instantiated, so no call has a
  value. With the body made to compile, for \<open>x\<close> of shape \<open>(0, 0, 1)\<close> holding the unit
  quaternion \<open>(1,0,0,0)\<close>, \<open>x - x\<close> is \<open>[-pi/2, 0, 0]\<close> and not zero: the NQuat product of
  \<open>(1,0,0,0)\<close> and its inverse is \<open>(-1,0,0,1)\<close>.
\<close>

theorem LieG_minus_self_not_zero:
  "LieG_minus \<lparr>scalars = [], vectors = [], quats = [(1, 0, 0, 0)]\<rparr>
              \<lparr>scalars = [], vectors = [], quats = [(1, 0, 0, 0)]\<rparr> = Inl IllFormed \<and>
   qnorm (1, 0, 0, 0) = 1 \<and>
   NQuat_mult (1, 0, 0, 0) (quatInverse (1, 0, 0, 0)) = (- 1, 0, 0, 1) \<and>
   LieG_minus_body \<lparr>scalars = [], vectors = [], quats = [(1, 0, 0, 0)]\<rparr>
                   \<lparr>scalars = [], vectors = [], quats = [(1, 0, 0, 0)]\<rparr>
     = Some [- (pi / 2), 0, 0]"
  by (simp add: LieG_minus_def LieG_minus_body_def NquatToRotVec_def atan2_one_one)

end
